theory Spec2Isabelle
  imports Main "HOL-Library.Word" "HOL-Library.Sublist" "HOL-Library.Log_Nat"
begin

section \<open>Strings\<close>

text \<open>
  A JavaScript string is a sequence of 16-bit code units. The quiz deals in Chinese
  text, so the code units are kept as they are: \<open>0x82F9, 0x679C\<close> is the two-character
  string of U+82F9 and U+679C. ASCII literals of the source are written through \<open>js\<close>.
\<close>

type_synonym jschar = "16 word"
type_synonym jsstring = "jschar list"

definition js :: "string \<Rightarrow> jsstring" where
  "js s = map of_char s"

text \<open>
  \<^verbatim>\<open>String.prototype.trim\<close> removes leading and trailing WhiteSpace and LineTerminator
  code points: TAB, VT, FF, SP, NBSP, ZWNBSP, the category Zs (U+1680, U+2000..U+200A,
  U+202F, U+205F, U+3000), and LF, CR, LS, PS.
\<close>

definition isWhiteSpace :: "jschar \<Rightarrow> bool" where
  "isWhiteSpace c \<longleftrightarrow>
     c \<in> set [0x9, 0xA, 0xB, 0xC, 0xD, 0x20, 0xA0, 0x1680, 0x2028, 0x2029,
              0x202F, 0x205F, 0x3000, 0xFEFF]
     \<or> (0x2000 \<le> c \<and> c \<le> 0x200A)"

definition trim :: "jsstring \<Rightarrow> jsstring" where
  "trim s = rev (dropWhile isWhiteSpace (rev (dropWhile isWhiteSpace s)))"

text \<open>
  \<^verbatim>\<open>s.includes(x)\<close>: does \<open>x\<close> occur in \<open>s\<close> at some index. The search walks the start
  index over \<open>s\<close>; the empty search string occurs everywhere, also in the empty string.
\<close>

fun js_includes :: "'a list \<Rightarrow> 'a list \<Rightarrow> bool" where
  "js_includes [] x = (x = [])"
| "js_includes (c # cs) x = (prefix x (c # cs) \<or> js_includes cs x)"


section \<open>Data model (types.ts)\<close>

datatype VocabularyLevel = CET6 | KAOYAN

datatype LoadingState = IDLE | LOADING | ERROR | READY

record WordItem =
  word :: jsstring
  phonetic :: jsstring
  meanings :: "jsstring list"
  example :: jsstring
  exampleTranslation :: jsstring

text \<open>
  The counters are JavaScript numbers holding integers, which start at 0 and grow by 1:
  they stay far below \<open>2^53\<close>, where doubles add integers exactly, and are modelled
  as \<open>int\<close> (\<open>words.length - 1\<close> is \<open>-1\<close> on the empty batch, which \<open>nat\<close> would
  hide). The one computation that leaves the integers, the accuracy on the result page,
  is modelled in doubles below.
\<close>

record QuizState =
  currentWordIndex :: int
  words :: "WordItem list"
  score :: int
  totalAnswered :: int
  streak :: int
  isFinished :: bool

record CheckResult =
  isCorrect :: bool
  userAnswer :: jsstring
  explanation :: "jsstring option"


section \<open>The session (App.tsx)\<close>

definition INITIAL_QUIZ_STATE :: QuizState where
  "INITIAL_QUIZ_STATE =
     \<lparr>currentWordIndex = 0, words = [], score = 0, totalAnswered = 0, streak = 0,
      isFinished = False\<rparr>"

text \<open>The updater that \<^verbatim>\<open>handleNextWord(wasCorrect)\<close> passes to \<^verbatim>\<open>setQuizState\<close>.\<close>

definition handleNextWord :: "bool \<Rightarrow> QuizState \<Rightarrow> QuizState" where
  "handleNextWord wasCorrect prev =
     (let isLastWord = (currentWordIndex prev \<ge> int (length (words prev)) - 1) in
      if isLastWord then
        prev\<lparr>score := (if wasCorrect then score prev + 1 else score prev),
             totalAnswered := totalAnswered prev + 1,
             streak := (if wasCorrect then streak prev + 1 else 0),
             isFinished := True\<rparr>
      else
        prev\<lparr>score := (if wasCorrect then score prev + 1 else score prev),
             totalAnswered := totalAnswered prev + 1,
             streak := (if wasCorrect then streak prev + 1 else 0),
             currentWordIndex := currentWordIndex prev + 1\<rparr>)"

text \<open>A run of \<^verbatim>\<open>handleNextWord\<close> calls, one per recorded outcome, oldest first.\<close>

fun advanceAll :: "QuizState \<Rightarrow> bool list \<Rightarrow> QuizState" where
  "advanceAll s [] = s"
| "advanceAll s (b # bs) = advanceAll (handleNextWord b s) bs"

text \<open>The state \<^verbatim>\<open>startGame\<close> installs for a fetched batch.\<close>

definition sessionStart :: "WordItem list \<Rightarrow> QuizState" where
  "sessionStart ws = INITIAL_QUIZ_STATE\<lparr>words := ws\<rparr>"

text \<open>
  \<^verbatim>\<open>quizState.words[quizState.currentWordIndex]\<close> in \<^verbatim>\<open>renderGame\<close>: \<^verbatim>\<open>undefined\<close>
  outside the array.
\<close>

definition currentWord :: "QuizState \<Rightarrow> WordItem option" where
  "currentWord q =
     (if 0 \<le> currentWordIndex q \<and> currentWordIndex q < int (length (words q))
      then Some (words q ! nat (currentWordIndex q)) else None)"

text \<open>
  \<^verbatim>\<open>handleNextWord\<close> has one caller, the Continue button of the quiz card. With the
  loading state READY, the card is rendered when the quiz is not finished (the result
  page is shown otherwise) and a current word exists (\<^verbatim>\<open>renderGame\<close> returns \<^verbatim>\<open>null\<close>
  otherwise).
\<close>

definition quizCardMounted :: "QuizState \<Rightarrow> bool" where
  "quizCardMounted q \<longleftrightarrow> \<not> isFinished q \<and> currentWord q \<noteq> None"

text \<open>The quiz states of a session on the batch \<open>ws\<close>.\<close>

inductive reachable :: "WordItem list \<Rightarrow> QuizState \<Rightarrow> bool" for ws where
  start: "reachable ws (sessionStart ws)"
| advance: "reachable ws q \<Longrightarrow> quizCardMounted q \<Longrightarrow> reachable ws (handleNextWord b q)"

text \<open>
  The invariant as the specification words it, with \<open>position\<close> for
  \<^verbatim>\<open>currentWordIndex\<close> and \<open>finished\<close> for \<^verbatim>\<open>isFinished\<close>.
\<close>

definition spec_invariant :: "QuizState \<Rightarrow> bool" where
  "spec_invariant q \<longleftrightarrow>
     0 \<le> score q \<and> score q \<le> totalAnswered q
     \<and> totalAnswered q \<le> currentWordIndex q
     \<and> currentWordIndex q \<le> int (length (words q))
     \<and> (isFinished q \<longleftrightarrow> totalAnswered q = int (length (words q)))
     \<and> (isFinished q \<longrightarrow> currentWordIndex q = int (length (words q)))"

text \<open>
  The invariant the code keeps: the last call sets \<^verbatim>\<open>isFinished\<close> and leaves the index
  on the last word.
\<close>

definition session_invariant :: "QuizState \<Rightarrow> bool" where
  "session_invariant q \<longleftrightarrow>
     0 \<le> score q \<and> score q \<le> totalAnswered q
     \<and> totalAnswered q \<le> int (length (words q))
     \<and> 0 \<le> currentWordIndex q
     \<and> (if isFinished q
        then totalAnswered q = int (length (words q))
           \<and> currentWordIndex q = int (length (words q)) - 1
        else totalAnswered q = currentWordIndex q
           \<and> (words q = [] \<or> currentWordIndex q < int (length (words q))))
     \<and> (words q \<noteq> [] \<longrightarrow> (isFinished q \<longleftrightarrow> totalAnswered q = int (length (words q))))"


section \<open>The generative service (services/geminiService.ts)\<close>

text \<open>
  The service is outside the program. A \<open>Gemini\<close> value fixes what it answers:
  \<^verbatim>\<open>generateContent\<close> rejects (\<open>Inl\<close>) or resolves to a response whose \<^verbatim>\<open>text\<close> is a
  string or \<^verbatim>\<open>undefined\<close>; the request stands for the prompt, which the source builds from
  exactly these arguments. \<^verbatim>\<open>JSON.parse\<close> throws (\<open>Inl\<close>) or returns a value, taken at
  the type the source declares for it.
\<close>

datatype js_error = ApiError | SyntaxError

datatype request =
  WordBatchRequest VocabularyLevel int
| AnswerCheckRequest jsstring "jsstring list" jsstring

record AiResult =
  aiIsCorrect :: bool
  aiExplanation :: jsstring

record Gemini =
  generateContent :: "request \<Rightarrow> js_error + jsstring option"
  parseWordItems :: "jsstring \<Rightarrow> js_error + WordItem list"
  parseAiResult :: "jsstring \<Rightarrow> js_error + AiResult"

text \<open>
  \<^verbatim>\<open>fetchWordBatch\<close>: \<^verbatim>\<open>!text\<close> holds for \<^verbatim>\<open>undefined\<close> and for the empty string; the
  \<^verbatim>\<open>catch\<close> logs and throws the error again.
\<close>

definition fetchWordBatch :: "Gemini \<Rightarrow> VocabularyLevel \<Rightarrow> int \<Rightarrow> js_error + WordItem list" where
  "fetchWordBatch g level count =
     (case generateContent g (WordBatchRequest level count) of
        Inl error \<Rightarrow> Inl error
      | Inr text \<Rightarrow>
          (case text of
             None \<Rightarrow> Inr []
           | Some t \<Rightarrow>
               if t = [] then Inr []
               else (case parseWordItems g t of
                       Inl error \<Rightarrow> Inl error
                     | Inr ws \<Rightarrow> Inr ws)))"

text \<open>
  \<^verbatim>\<open>smartCheckAnswer\<close>, with the list of requests it sends. The explanation of the
  empty response is the four-character string U+65E0 U+6CD5 U+9A8C U+8BC1.
\<close>

definition smartCheckAnswer ::
  "Gemini \<Rightarrow> jsstring \<Rightarrow> jsstring list \<Rightarrow> jsstring \<Rightarrow> (js_error + AiResult) \<times> request list" where
  "smartCheckAnswer g theWord correctMeanings answer =
     (let fallback =
            (let isStrictMatch =
                   list_ex (\<lambda>m. js_includes answer m \<or> js_includes m answer)
                     correctMeanings
             in \<lparr>aiIsCorrect = isStrictMatch,
                 aiExplanation = (if isStrictMatch then js ''Local match'' else js ''API Error'')\<rparr>);
          unverifiable = \<lparr>aiIsCorrect = False, aiExplanation = [0x65E0, 0x6CD5, 0x9A8C, 0x8BC1]\<rparr>
      in (case generateContent g (AnswerCheckRequest theWord correctMeanings answer) of
            Inl error \<Rightarrow> Inr fallback
          | Inr text \<Rightarrow>
              (case text of
                 None \<Rightarrow> Inr unverifiable
               | Some t \<Rightarrow>
                   if t = [] then Inr unverifiable
                   else (case parseAiResult g t of
                           Inl error \<Rightarrow> Inr fallback
                         | Inr parsed \<Rightarrow> Inr parsed)),
          [AnswerCheckRequest theWord correctMeanings answer]))"


text \<open>
  How a check request can go wrong: the call rejects or its text does not parse (the
  \<^verbatim>\<open>catch\<close> block of \<^verbatim>\<open>smartCheckAnswer\<close> runs), or the response has no text.
\<close>

definition oracleFails :: "Gemini \<Rightarrow> request \<Rightarrow> bool" where
  "oracleFails g r \<longleftrightarrow>
     (case generateContent g r of
        Inl error \<Rightarrow> True
      | Inr text \<Rightarrow>
          (case text of None \<Rightarrow> False | Some t \<Rightarrow> t \<noteq> [] \<and> isl (parseAiResult g t)))"

definition oracleSilent :: "Gemini \<Rightarrow> request \<Rightarrow> bool" where
  "oracleSilent g r \<longleftrightarrow> generateContent g r = Inr None \<or> generateContent g r = Inr (Some [])"


section \<open>Starting and leaving a session (App.tsx)\<close>

record AppState =
  loadingState :: LoadingState
  selectedLevel :: VocabularyLevel
  quizState :: QuizState
  errorMsg :: jsstring

definition initialApp :: AppState where
  "initialApp =
     \<lparr>loadingState = IDLE, selectedLevel = CET6, quizState = INITIAL_QUIZ_STATE,
      errorMsg = []\<rparr>"

text \<open>\<^verbatim>\<open>startGame\<close>, from the click to the state after the awaited fetch.\<close>

definition startGame :: "Gemini \<Rightarrow> VocabularyLevel \<Rightarrow> AppState \<Rightarrow> AppState" where
  "startGame g level app =
     (let loading = app\<lparr>loadingState := LOADING, selectedLevel := level, errorMsg := []\<rparr>
      in case fetchWordBatch g level 5 of
           Inr ws \<Rightarrow>
             loading\<lparr>quizState := INITIAL_QUIZ_STATE\<lparr>words := ws\<rparr>, loadingState := READY\<rparr>
         | Inl err \<Rightarrow>
             loading\<lparr>errorMsg :=
                       js ''Failed to generate vocabulary. Please check your connection or API key.'',
                     loadingState := ERROR\<rparr>)"

definition resetGame :: "AppState \<Rightarrow> AppState" where
  "resetGame app = app\<lparr>loadingState := IDLE, quizState := INITIAL_QUIZ_STATE\<rparr>"


section \<open>The quiz card (components/QuizCard)\<close>

record QuizCardState =
  input :: jsstring
  isChecking :: bool
  result :: "CheckResult option"

text \<open>
  The card as it is mounted, and as the effect on \<^verbatim>\<open>wordData\<close> resets it when the word
  changes.
\<close>

definition blankCard :: QuizCardState where
  "blankCard = \<lparr>input = [], isChecking = False, result = None\<rparr>"

text \<open>
  \<^verbatim>\<open>handleSubmit\<close>, from the submit event to the state after the awaited check, with the
  requests sent to the service on the way. \<^verbatim>\<open>setIsChecking(true)\<close> is undone by the
  \<^verbatim>\<open>finally\<close> block, so the final state has \<^verbatim>\<open>isChecking\<close> false.
\<close>

definition handleSubmit ::
  "Gemini \<Rightarrow> WordItem \<Rightarrow> QuizCardState \<Rightarrow> QuizCardState \<times> request list" where
  "handleSubmit g wordData qc =
     (if trim (input qc) = [] then (qc, [])
      else
        let normalizedInput = trim (input qc);
            localMatch =
              list_ex (\<lambda>m. js_includes m normalizedInput \<or> js_includes normalizedInput m)
                (meanings wordData)
        in if localMatch then
             (qc\<lparr>result :=
                   Some \<lparr>isCorrect = True, userAnswer = normalizedInput,
                         explanation = Some (js ''Correct!'')\<rparr>,
                 isChecking := False\<rparr>, [])
           else
             (case smartCheckAnswer g (word wordData) (meanings wordData) normalizedInput of
                (Inr aiResult, calls) \<Rightarrow>
                  (qc\<lparr>result :=
                        Some \<lparr>isCorrect = aiIsCorrect aiResult, userAnswer = normalizedInput,
                              explanation = Some (aiExplanation aiResult)\<rparr>,
                      isChecking := False\<rparr>, calls)
              | (Inl error, calls) \<Rightarrow>
                  (qc\<lparr>result :=
                        Some \<lparr>isCorrect = False, userAnswer = input qc,
                              explanation = Some (js ''Verification error. Try again.'')\<rparr>,
                      isChecking := False\<rparr>, calls)))"

text \<open>\<^verbatim>\<open>handleContinue\<close>: the outcome on the card goes to \<^verbatim>\<open>handleNextWord\<close>.\<close>

definition handleContinue :: "QuizCardState \<Rightarrow> QuizState \<Rightarrow> QuizState" where
  "handleContinue qc q =
     (case result qc of None \<Rightarrow> q | Some r \<Rightarrow> handleNextWord (isCorrect r) q)"

text \<open>
  The heuristic as the specification words it: the answer is a substring of some
  accepted meaning, or some accepted meaning is a substring of the answer.
\<close>

definition bidirectionalContainment :: "jsstring list \<Rightarrow> jsstring \<Rightarrow> bool" where
  "bidirectionalContainment ms a \<longleftrightarrow> (\<exists>m \<in> set ms. sublist a m \<or> sublist m a)"


section \<open>The accuracy on the result page (App.tsx)\<close>

text \<open>
  \<^verbatim>\<open>Math.round((quizState.score / quizState.words.length) * 100)\<close> is computed in IEEE 754
  binary64. A finite double is a rational; an operation returns the exact result rounded
  to the nearest double, ties to the even significand. \<open>binade x\<close> is the exponent \<open>e\<close>
  with \<open>2^e \<le> x < 2^(e+1)\<close>; doubles in that binade are the multiples of \<open>2^(e-52)\<close>, and
  below \<open>2^-1022\<close> the spacing stays \<open>2^-1074\<close>. Overflow to infinity is not modelled:
  the values here are at most 100.
\<close>

definition roundTiesToEven :: "rat \<Rightarrow> int" where
  "roundTiesToEven x =
     (let f = \<lfloor>x\<rfloor>; r = x - of_int f
      in if r < 1 / 2 then f
         else if 1 / 2 < r then f + 1
         else if even f then f else f + 1)"

definition binade :: "rat \<Rightarrow> int" where
  "binade x =
     (let (p, q) = quotient_of x; d = bitlen p - bitlen q
      in if of_int q * 2 powi d \<le> (of_int p :: rat) then d else d - 1)"

definition binary64 :: "rat \<Rightarrow> rat" where
  "binary64 x =
     (if x = 0 then 0
      else let e = max (binade \<bar>x\<bar>) (- 1022); ulp = 2 powi (e - 52)
           in of_int (roundTiesToEven (x / ulp)) * ulp)"

text \<open>Division by zero gives \<^verbatim>\<open>NaN\<close> or an infinity: no finite number, \<open>None\<close>.\<close>

definition js_divide :: "rat \<Rightarrow> rat \<Rightarrow> rat option" where
  "js_divide a b = (if b = 0 then None else Some (binary64 (a / b)))"

definition js_times :: "rat \<Rightarrow> rat \<Rightarrow> rat" where
  "js_times a b = binary64 (a * b)"

text \<open>\<^verbatim>\<open>Math.round\<close>: the nearest integer, a tie going up.\<close>

definition Math_round :: "rat \<Rightarrow> int" where
  "Math_round x = \<lfloor>x + 1 / 2\<rfloor>"

definition accuracyPercent :: "QuizState \<Rightarrow> int option" where
  "accuracyPercent q =
     (case js_divide (of_int (score q)) (of_int (int (length (words q)))) of
        None \<Rightarrow> None
      | Some ratio \<Rightarrow> Some (Math_round (js_times ratio 100)))"

text \<open>
  The accuracy as the specification words it, \<open>round(100 * score / length(words))\<close>,
  in exact arithmetic.
\<close>

definition spec_accuracyPercent :: "QuizState \<Rightarrow> int" where
  "spec_accuracyPercent q =
     Math_round (100 * of_int (score q) / of_int (int (length (words q))))"


section \<open>Sample data\<close>

text \<open>
  A word with the meanings U+82F9 U+679C and U+4E00 U+79CD U+6C34 U+679C; the answer
  U+6C34 U+679C is a substring of the second.
\<close>

definition appleWord :: WordItem where
  "appleWord =
     \<lparr>word = js ''apple'', phonetic = js ''/apl/'',
      meanings = [[0x82F9, 0x679C], [0x4E00, 0x79CD, 0x6C34, 0x679C]],
      example = js ''An apple a day.'', exampleTranslation = [0x82F9, 0x679C]\<rparr>"

text \<open>
  A service that rejects every request, one that answers with no text, and one whose
  text is not JSON.
\<close>

definition offline :: Gemini where
  "offline =
     \<lparr>generateContent = (\<lambda>r. Inl ApiError),
      parseWordItems = (\<lambda>t. Inl SyntaxError),
      parseAiResult = (\<lambda>t. Inl SyntaxError)\<rparr>"

definition silent :: Gemini where
  "silent =
     \<lparr>generateContent = (\<lambda>r. Inr None),
      parseWordItems = (\<lambda>t. Inl SyntaxError),
      parseAiResult = (\<lambda>t. Inl SyntaxError)\<rparr>"

definition garbled :: Gemini where
  "garbled =
     \<lparr>generateContent = (\<lambda>r. Inr (Some (js ''[{''))),
      parseWordItems = (\<lambda>t. Inl SyntaxError),
      parseAiResult = (\<lambda>t. Inl SyntaxError)\<rparr>"


text \<open>Finished sessions: 3 correct answers on 5 words, and 23 on 40.\<close>

definition session3of5 :: QuizState where
  "session3of5 =
     advanceAll (sessionStart (replicate 5 appleWord)) [True, True, True, False, False]"

definition session23of40 :: QuizState where
  "session23of40 =
     advanceAll (sessionStart (replicate 40 appleWord)) (replicate 23 True @ replicate 17 False)"


section \<open>Counters\<close>

lemma handleNextWord_totalAnswered:
  "totalAnswered (handleNextWord b s) = totalAnswered s + 1"
  by (simp add: handleNextWord_def Let_def)

lemma handleNextWord_score:
  "score (handleNextWord b s) = (if b then score s + 1 else score s)"
  by (simp add: handleNextWord_def Let_def)

lemma handleNextWord_streak:
  "streak (handleNextWord b s) = (if b then streak s + 1 else 0)"
  by (simp add: handleNextWord_def Let_def)

lemma handleNextWord_words:
  "words (handleNextWord b s) = words s"
  by (simp add: handleNextWord_def Let_def)

lemma advanceAll_append:
  "advanceAll s (bs @ cs) = advanceAll (advanceAll s bs) cs"
  by (induction bs arbitrary: s) simp_all

lemma advanceAll_words: "words (advanceAll s bs) = words s"
  by (induction bs arbitrary: s) (simp_all add: handleNextWord_words)

lemma advanceAll_totalAnswered:
  "totalAnswered (advanceAll s bs) = totalAnswered s + int (length bs)"
  by (induction bs arbitrary: s) (simp_all add: handleNextWord_totalAnswered)

lemma advanceAll_score:
  "score (advanceAll s bs) = score s + int (length (filter id bs))"
  by (induction bs arbitrary: s) (simp_all add: handleNextWord_score)

lemma advanceAll_streak:
  "streak (advanceAll s bs) =
     (if list_all id bs then streak s + int (length bs)
      else int (length (takeWhile id (rev bs))))"
proof (induction bs rule: rev_induct)
  case Nil
  show ?case by simp
next
  case (snoc b bs)
  show ?case
    by (cases b) (simp_all add: advanceAll_append handleNextWord_streak snoc.IH id_def)
qed

lemma sessionStart_fields:
  "totalAnswered (sessionStart ws) = 0" "score (sessionStart ws) = 0"
  "streak (sessionStart ws) = 0" "currentWordIndex (sessionStart ws) = 0"
  "words (sessionStart ws) = ws" "isFinished (sessionStart ws) = False"
  by (simp_all add: sessionStart_def INITIAL_QUIZ_STATE_def)

text \<open>
  C5. One \<^verbatim>\<open>handleNextWord\<close> call with outcome \<open>b\<close> adds exactly 1 to \<open>totalAnswered\<close>,
  adds 1 to \<open>score\<close> when \<open>b\<close> is true and nothing otherwise, and sets \<open>streak\<close> to
  \<open>streak + 1\<close> when \<open>b\<close> is true and to 0 otherwise. Hence after the calls for the
  outcomes \<open>bs\<close> on a started session, \<open>totalAnswered\<close> is the number of calls and
  \<open>score\<close> is the number of correct outcomes among them.
\<close>

theorem C5_advance_counts:
  "totalAnswered (handleNextWord b s) = totalAnswered s + 1
   \<and> score (handleNextWord b s) = (if b then score s + 1 else score s)
   \<and> streak (handleNextWord b s) = (if b then streak s + 1 else 0)
   \<and> totalAnswered (advanceAll (sessionStart ws) bs) = int (length bs)
   \<and> score (advanceAll (sessionStart ws) bs) = int (length (filter id bs))"
  by (simp add: handleNextWord_totalAnswered handleNextWord_score handleNextWord_streak
      advanceAll_totalAnswered advanceAll_score sessionStart_fields)

text \<open>
  C6. After the calls for the outcomes \<open>bs\<close> on a started session, \<open>streak\<close> is the
  length of the longest run of correct outcomes at the end of \<open>bs\<close>. One incorrect
  outcome sets it to 0; a correct one adds 1; nothing else changes it.
\<close>

theorem C6_streak_trailing_run:
  "streak (advanceAll (sessionStart ws) bs) = int (length (takeWhile id (rev bs)))
   \<and> streak (handleNextWord False s) = 0
   \<and> streak (handleNextWord True s) = streak s + 1"
proof -
  have "list_all id bs \<Longrightarrow> length (takeWhile id (rev bs)) = length bs"
    by (simp add: list_all_iff takeWhile_eq_all_conv [THEN iffD2])
  then show ?thesis
    by (simp add: advanceAll_streak handleNextWord_streak sessionStart_fields)
qed


section \<open>The session invariant\<close>

lemma session_invariant_start: "session_invariant (sessionStart ws)"
  by (simp add: session_invariant_def sessionStart_fields)

lemma session_invariant_step:
  "session_invariant q \<Longrightarrow> quizCardMounted q \<Longrightarrow> session_invariant (handleNextWord b q)"
  by (auto simp: session_invariant_def quizCardMounted_def currentWord_def
      handleNextWord_def Let_def split: if_splits)

lemma appleWord_mounted: "quizCardMounted (sessionStart [appleWord])"
  by (simp add: quizCardMounted_def currentWord_def sessionStart_fields)

lemma appleWord_answered:
  "reachable [appleWord] (handleNextWord True (sessionStart [appleWord]))"
  by (rule reachable.advance [OF reachable.start appleWord_mounted])

text \<open>The calls for at most as many outcomes as the batch has words are a run of the session.\<close>

lemma advanceAll_reachable:
  "length bs \<le> length ws \<Longrightarrow>
   reachable ws (advanceAll (sessionStart ws) bs)
   \<and> session_invariant (advanceAll (sessionStart ws) bs)"
proof (induction bs rule: rev_induct)
  case Nil
  show ?case by (simp add: reachable.start session_invariant_start)
next
  case (snoc b bs)
  let ?q = "advanceAll (sessionStart ws) bs"
  from snoc have r: "reachable ws ?q" and i: "session_invariant ?q" by simp_all
  have t: "totalAnswered ?q = int (length bs)"
    by (simp add: advanceAll_totalAnswered sessionStart_fields)
  have w: "words ?q = ws"
    by (simp add: advanceAll_words sessionStart_fields)
  from snoc.prems have "length bs < length ws" by simp
  with i t w have "quizCardMounted ?q"
    by (auto simp: session_invariant_def quizCardMounted_def currentWord_def split: if_splits)
  with r i show ?case
    by (simp add: advanceAll_append reachable.advance session_invariant_step)
qed

text \<open>
  C2 (as the code has it). Every quiz state reachable from a started session by
  \<^verbatim>\<open>handleNextWord\<close> calls made while the quiz card is shown keeps the batch and
  satisfies \<open>0 \<le> score \<le> totalAnswered \<le> length(words)\<close> and \<open>0 \<le> position\<close>. While the
  session is not finished, \<open>totalAnswered = position\<close> (and \<open>position < length(words)\<close>
  on a batch that is not empty); once it is finished, \<open>totalAnswered = length(words)\<close>
  and \<open>position = length(words) - 1\<close>: the last call leaves the index on the last word.
  On a batch that is not empty, \<open>finished\<close> holds if and only if
  \<open>totalAnswered = length(words)\<close>.
\<close>

theorem C2_reachable_invariant:
  "reachable ws q \<Longrightarrow> session_invariant q \<and> words q = ws"
proof (induction rule: reachable.induct)
  case start
  show ?case by (simp add: session_invariant_start sessionStart_fields)
next
  case (advance q b)
  then show ?case by (simp add: session_invariant_step handleNextWord_words)
qed

theorem C2_reachable_invariant_witness:
  "reachable [appleWord] (handleNextWord True (sessionStart [appleWord]))
   \<and> session_invariant (handleNextWord True (sessionStart [appleWord]))
   \<and> isFinished (handleNextWord True (sessionStart [appleWord]))"
  using C2_reachable_invariant [OF appleWord_answered] appleWord_answered
  by (simp add: handleNextWord_def sessionStart_fields)

text \<open>
  The invariant of the specification fails after the only answer of a one-word session:
  the state is finished with \<open>totalAnswered = 1\<close> and \<open>position = 0\<close>.
\<close>

theorem C2_counterexample:
  "reachable [appleWord] (handleNextWord True (sessionStart [appleWord]))
   \<and> \<not> spec_invariant (handleNextWord True (sessionStart [appleWord]))"
proof -
  have "\<not> spec_invariant (handleNextWord True (sessionStart [appleWord]))"
    by (simp add: spec_invariant_def handleNextWord_def sessionStart_fields)
  with appleWord_answered show ?thesis by simp
qed


section \<open>The local tier\<close>

lemma js_includes_sublist: "js_includes s x \<longleftrightarrow> sublist x s"
  by (induction s) (simp_all add: sublist_Cons_right)

lemma localMatch_containment:
  "list_ex (\<lambda>m. js_includes m a \<or> js_includes a m) ms \<longleftrightarrow> bidirectionalContainment ms a"
  by (auto simp: list_ex_iff bidirectionalContainment_def js_includes_sublist)

lemma strictMatch_containment:
  "list_ex (\<lambda>m. js_includes a m \<or> js_includes m a) ms \<longleftrightarrow> bidirectionalContainment ms a"
  by (auto simp: list_ex_iff bidirectionalContainment_def js_includes_sublist)

lemma trim_padded: "trim [0x20, 0x6C34, 0x679C, 0x20] = [0x6C34, 0x679C]"
  by (simp add: trim_def isWhiteSpace_def)

lemma trim_blank: "trim [0x20, 0x20] = []"
  by (simp add: trim_def isWhiteSpace_def)

lemma trim_apple: "trim [0x82F9, 0x679C] = [0x82F9, 0x679C]"
  by (simp add: trim_def isWhiteSpace_def)

lemma trim_orange: "trim [0x6A58, 0x5B50] = [0x6A58, 0x5B50]"
  by (simp add: trim_def isWhiteSpace_def)

lemma fruit_contained: "bidirectionalContainment (meanings appleWord) [0x6C34, 0x679C]"
  by (simp add: bidirectionalContainment_def appleWord_def sublist_code(3))

lemma orange_not_contained: "\<not> bidirectionalContainment (meanings appleWord) [0x6A58, 0x5B50]"
  by (simp add: bidirectionalContainment_def appleWord_def sublist_code(3))

text \<open>
  C3. A submitted answer is not empty after trimming: the submit button is disabled
  otherwise, and \<^verbatim>\<open>handleSubmit\<close> returns at once (C9). For every word and every such
  answer that, trimmed, is a substring of some accepted meaning or contains some accepted
  meaning as a substring, \<^verbatim>\<open>handleSubmit\<close> sets an outcome with \<^verbatim>\<open>isCorrect: true\<close> and
  sends no request to the service, whatever the service would answer.
\<close>

theorem C3_local_match_no_oracle:
  assumes "trim (input qc) \<noteq> []"
    and "bidirectionalContainment (meanings wordData) (trim (input qc))"
  shows "handleSubmit g wordData qc =
     (qc\<lparr>result := Some \<lparr>isCorrect = True, userAnswer = trim (input qc),
                            explanation = Some (js ''Correct!'')\<rparr>,
           isChecking := False\<rparr>, [])"
  using assms by (simp add: handleSubmit_def Let_def localMatch_containment)

theorem C3_local_match_no_oracle_witness:
  "handleSubmit offline appleWord (blankCard\<lparr>input := [0x20, 0x6C34, 0x679C, 0x20]\<rparr>) =
     (\<lparr>input = [0x20, 0x6C34, 0x679C, 0x20], isChecking = False,
       result = Some \<lparr>isCorrect = True, userAnswer = [0x6C34, 0x679C],
                      explanation = Some (js ''Correct!'')\<rparr>\<rparr>, [])"
  using C3_local_match_no_oracle [of "blankCard\<lparr>input := [0x20, 0x6C34, 0x679C, 0x20]\<rparr>"
      appleWord offline]
  by (simp add: trim_padded fruit_contained blankCard_def)

text \<open>
  C9. For every answer that is empty after trimming, \<^verbatim>\<open>handleSubmit\<close> returns at its
  first check: the card state is the one it was given and no request is sent. The
  function has no access to the quiz state.
\<close>

theorem C9_empty_answer_rejected:
  "trim (input qc) = [] \<Longrightarrow> handleSubmit g wordData qc = (qc, [])"
  by (simp add: handleSubmit_def)

theorem C9_empty_answer_rejected_witness:
  "trim (input (blankCard\<lparr>input := [0x20, 0x20]\<rparr>)) = []
   \<and> handleSubmit offline appleWord (blankCard\<lparr>input := [0x20, 0x20]\<rparr>) =
       (blankCard\<lparr>input := [0x20, 0x20]\<rparr>, [])"
  using C9_empty_answer_rejected [of "blankCard\<lparr>input := [0x20, 0x20]\<rparr>" offline appleWord]
  by (simp add: trim_blank)

text \<open>
  C10. If some accepted meaning of the word is the empty string, then for every answer
  that is not empty after trimming \<^verbatim>\<open>handleSubmit\<close> sets an outcome with
  \<^verbatim>\<open>isCorrect: true\<close> and sends no request, whatever the answer says.
\<close>

theorem C10_empty_meaning_accepts_all:
  assumes "[] \<in> set (meanings wordData)" and "trim (input qc) \<noteq> []"
  shows "handleSubmit g wordData qc =
     (qc\<lparr>result := Some \<lparr>isCorrect = True, userAnswer = trim (input qc),
                            explanation = Some (js ''Correct!'')\<rparr>,
           isChecking := False\<rparr>, [])"
proof -
  from assms(1) have "bidirectionalContainment (meanings wordData) (trim (input qc))"
    unfolding bidirectionalContainment_def by (rule bexI [rotated]) simp
  with assms(2) show ?thesis
    by (simp add: handleSubmit_def Let_def localMatch_containment)
qed

theorem C10_empty_meaning_accepts_all_witness:
  "handleSubmit offline (appleWord\<lparr>meanings := [[0x82F9, 0x679C], []]\<rparr>)
       (blankCard\<lparr>input := [0x6A58, 0x5B50]\<rparr>) =
     (\<lparr>input = [0x6A58, 0x5B50], isChecking = False,
       result = Some \<lparr>isCorrect = True, userAnswer = [0x6A58, 0x5B50],
                      explanation = Some (js ''Correct!'')\<rparr>\<rparr>, [])"
  using C10_empty_meaning_accepts_all [of "appleWord\<lparr>meanings := [[0x82F9, 0x679C], []]\<rparr>"
      "blankCard\<lparr>input := [0x6A58, 0x5B50]\<rparr>" offline]
  by (simp add: trim_orange blankCard_def)


section \<open>Starting a session\<close>


lemma fetchWordBatch_rejected:
  "generateContent g (WordBatchRequest level n) = Inl err \<Longrightarrow> fetchWordBatch g level n = Inl err"
  by (simp add: fetchWordBatch_def)

lemma fetchWordBatch_unparsable:
  "generateContent g (WordBatchRequest level n) = Inr (Some t) \<Longrightarrow> t \<noteq> [] \<Longrightarrow>
   parseWordItems g t = Inl err \<Longrightarrow> fetchWordBatch g level n = Inl err"
  by (simp add: fetchWordBatch_def)

lemma fetchWordBatch_no_text:
  "generateContent g (WordBatchRequest level n) = Inr None
   \<or> generateContent g (WordBatchRequest level n) = Inr (Some []) \<Longrightarrow>
   fetchWordBatch g level n = Inr []"
  by (auto simp: fetchWordBatch_def)

lemma startGame_failed:
  "fetchWordBatch g level 5 = Inl err \<Longrightarrow>
   loadingState (startGame g level app) = ERROR
   \<and> quizState (startGame g level app) = quizState app
   \<and> errorMsg (startGame g level app) =
       js ''Failed to generate vocabulary. Please check your connection or API key.''"
  by (simp add: startGame_def Let_def)

lemma startGame_fetched:
  "fetchWordBatch g level 5 = Inr ws \<Longrightarrow>
   loadingState (startGame g level app) = READY
   \<and> quizState (startGame g level app) = sessionStart ws
   \<and> errorMsg (startGame g level app) = []"
  by (simp add: startGame_def Let_def sessionStart_def)

text \<open>
  C1 (as the code has it). If the batch fetch throws (the request is rejected, or the
  response text is not parseable), \<^verbatim>\<open>startGame\<close> sets the loading state to ERROR with
  an error message, never READY, and leaves the quiz state unchanged. If the fetch
  returns a batch, of any length, \<^verbatim>\<open>startGame\<close> installs the fresh quiz state on that
  batch and sets READY with no error message; \<^verbatim>\<open>fetchWordBatch\<close> itself returns the
  empty batch when the response has no text.
\<close>

theorem C1_startGame_outcomes:
  "(fetchWordBatch g level 5 = Inl err \<longrightarrow>
      loadingState (startGame g level app) = ERROR
      \<and> quizState (startGame g level app) = quizState app
      \<and> errorMsg (startGame g level app) =
          js ''Failed to generate vocabulary. Please check your connection or API key.'')
   \<and> (fetchWordBatch g level 5 = Inr ws \<longrightarrow>
      loadingState (startGame g level app) = READY
      \<and> quizState (startGame g level app) = sessionStart ws
      \<and> errorMsg (startGame g level app) = [])
   \<and> (generateContent g (WordBatchRequest level n) = Inl err \<longrightarrow>
      fetchWordBatch g level n = Inl err)
   \<and> (generateContent g (WordBatchRequest level n) = Inr (Some t) \<and> t \<noteq> []
      \<and> parseWordItems g t = Inl err \<longrightarrow> fetchWordBatch g level n = Inl err)
   \<and> (generateContent g (WordBatchRequest level n) = Inr None
      \<or> generateContent g (WordBatchRequest level n) = Inr (Some []) \<longrightarrow>
      fetchWordBatch g level n = Inr [])"
  using startGame_failed startGame_fetched fetchWordBatch_rejected fetchWordBatch_unparsable
    fetchWordBatch_no_text by blast

lemma offline_batch: "fetchWordBatch offline level n = Inl ApiError"
  by (simp add: fetchWordBatch_def offline_def)

lemma silent_batch: "fetchWordBatch silent level n = Inr []"
  by (simp add: fetchWordBatch_def silent_def)

lemma garbled_batch: "fetchWordBatch garbled level n = Inl SyntaxError"
  by (simp add: fetchWordBatch_def garbled_def js_def)

theorem C1_startGame_outcomes_witness:
  "loadingState (startGame offline KAOYAN initialApp) = ERROR
   \<and> quizState (startGame offline KAOYAN initialApp) = INITIAL_QUIZ_STATE
   \<and> loadingState (startGame silent KAOYAN initialApp) = READY
   \<and> quizState (startGame silent KAOYAN initialApp) = sessionStart []
   \<and> fetchWordBatch garbled KAOYAN 5 = Inl SyntaxError"
  using
    C1_startGame_outcomes [of offline KAOYAN ApiError initialApp "[]" 5 "[]"]
    C1_startGame_outcomes [of silent KAOYAN ApiError initialApp "[]" 5 "[]"]
    C1_startGame_outcomes [of garbled KAOYAN SyntaxError initialApp "[]" 5 "js ''[{''"]
  by (simp add: offline_batch silent_batch initialApp_def offline_def silent_def garbled_def js_def)

text \<open>
  A response with no text: the fetch returns the empty batch, and \<^verbatim>\<open>startGame\<close>
  installs it as a READY session with no error message.
\<close>

theorem C1_counterexample:
  "fetchWordBatch silent CET6 5 = Inr []
   \<and> loadingState (startGame silent CET6 initialApp) = READY
   \<and> words (quizState (startGame silent CET6 initialApp)) = []
   \<and> errorMsg (startGame silent CET6 initialApp) = []"
  by (simp add: silent_batch startGame_def Let_def initialApp_def)


section \<open>The oracle tier\<close>

lemma smartCheckAnswer_fails:
  "oracleFails g (AnswerCheckRequest w ms a) \<Longrightarrow>
   smartCheckAnswer g w ms a =
     (Inr \<lparr>aiIsCorrect = bidirectionalContainment ms a,
           aiExplanation =
             (if bidirectionalContainment ms a then js ''Local match'' else js ''API Error'')\<rparr>,
      [AnswerCheckRequest w ms a])"
  by (auto simp: oracleFails_def smartCheckAnswer_def Let_def strictMatch_containment isl_def
      split: sum.splits option.splits)

lemma smartCheckAnswer_silent:
  "oracleSilent g (AnswerCheckRequest w ms a) \<Longrightarrow>
   smartCheckAnswer g w ms a =
     (Inr \<lparr>aiIsCorrect = False, aiExplanation = [0x65E0, 0x6CD5, 0x9A8C, 0x8BC1]\<rparr>,
      [AnswerCheckRequest w ms a])"
  by (auto simp: oracleSilent_def smartCheckAnswer_def Let_def)

lemma smartCheckAnswer_returns: "\<exists>r. fst (smartCheckAnswer g w ms a) = Inr r"
  by (simp add: smartCheckAnswer_def Let_def split: sum.splits option.splits)

lemma handleSubmit_degraded:
  assumes "trim (input qc) \<noteq> []"
    and "oracleFails g (AnswerCheckRequest (word wd) (meanings wd) (trim (input qc)))
         \<or> oracleSilent g (AnswerCheckRequest (word wd) (meanings wd) (trim (input qc)))"
  shows "\<exists>r. result (fst (handleSubmit g wd qc)) = Some r
           \<and> isCorrect r = bidirectionalContainment (meanings wd) (trim (input qc))"
proof (cases "bidirectionalContainment (meanings wd) (trim (input qc))")
  case True
  with assms(1) show ?thesis
    by (simp add: handleSubmit_def Let_def localMatch_containment)
next
  case False
  from assms(2) show ?thesis
  proof
    assume "oracleFails g (AnswerCheckRequest (word wd) (meanings wd) (trim (input qc)))"
    from smartCheckAnswer_fails [OF this] False assms(1) show ?thesis
      by (simp add: handleSubmit_def Let_def localMatch_containment)
  next
    assume "oracleSilent g (AnswerCheckRequest (word wd) (meanings wd) (trim (input qc)))"
    from smartCheckAnswer_silent [OF this] False assms(1) show ?thesis
      by (simp add: handleSubmit_def Let_def localMatch_containment)
  qed
qed





lemma offline_fails: "oracleFails offline r"
  by (simp add: oracleFails_def offline_def)




section \<open>Two scenarios\<close>

text \<open>
  A batch of the one word above. The answer U+6C34 U+679C matches locally, no request
  is sent, and Continue finishes the session with score 1.
\<close>

lemma scenario_local_match:
  "handleSubmit offline appleWord (blankCard\<lparr>input := [0x6C34, 0x679C]\<rparr>) =
     (\<lparr>input = [0x6C34, 0x679C], isChecking = False,
       result = Some \<lparr>isCorrect = True, userAnswer = [0x6C34, 0x679C],
                      explanation = Some (js ''Correct!'')\<rparr>\<rparr>, [])"
  "isFinished (handleContinue (fst (handleSubmit offline appleWord
      (blankCard\<lparr>input := [0x6C34, 0x679C]\<rparr>))) (sessionStart [appleWord]))"
  "score (handleContinue (fst (handleSubmit offline appleWord
      (blankCard\<lparr>input := [0x6C34, 0x679C]\<rparr>))) (sessionStart [appleWord])) = 1"
proof -
  have t: "trim [0x6C34, 0x679C] = [0x6C34, 0x679C]"
    by (simp add: trim_def isWhiteSpace_def)
  show h: "handleSubmit offline appleWord (blankCard\<lparr>input := [0x6C34, 0x679C]\<rparr>) =
     (\<lparr>input = [0x6C34, 0x679C], isChecking = False,
       result = Some \<lparr>isCorrect = True, userAnswer = [0x6C34, 0x679C],
                      explanation = Some (js ''Correct!'')\<rparr>\<rparr>, [])"
    using fruit_contained
    by (simp add: handleSubmit_def Let_def localMatch_containment t blankCard_def)
  show "isFinished (handleContinue (fst (handleSubmit offline appleWord
      (blankCard\<lparr>input := [0x6C34, 0x679C]\<rparr>))) (sessionStart [appleWord]))"
    by (simp add: h handleContinue_def handleNextWord_def sessionStart_fields)
  show "score (handleContinue (fst (handleSubmit offline appleWord
      (blankCard\<lparr>input := [0x6C34, 0x679C]\<rparr>))) (sessionStart [appleWord])) = 1"
    by (simp add: h handleContinue_def handleNextWord_def sessionStart_fields)
qed

text \<open>
  The same word, the answer U+6A58 U+5B50 and the service out of reach: one request,
  the fallback finds no containment, and the outcome is incorrect with the
  explanation \<open>API Error\<close>.
\<close>

lemma scenario_oracle_unreachable:
  "handleSubmit offline appleWord (blankCard\<lparr>input := [0x6A58, 0x5B50]\<rparr>) =
     (\<lparr>input = [0x6A58, 0x5B50], isChecking = False,
       result = Some \<lparr>isCorrect = False, userAnswer = [0x6A58, 0x5B50],
                      explanation = Some (js ''API Error'')\<rparr>\<rparr>,
      [AnswerCheckRequest (js ''apple'') (meanings appleWord) [0x6A58, 0x5B50]])"
  using orange_not_contained smartCheckAnswer_fails [OF offline_fails, of "js ''apple''"
      "meanings appleWord" "[0x6A58, 0x5B50]"]
  by (simp add: handleSubmit_def Let_def localMatch_containment trim_orange blankCard_def
      appleWord_def)


section \<open>The accuracy on the result page\<close>

text \<open>
  The rounding model: \<open>binade\<close> is the binary exponent, and \<open>binary64 x\<close>, a multiple
  of the spacing \<open>2^(e-52)\<close> by definition, is within half a spacing of \<open>x\<close>.
\<close>

lemma bitlen_powi_bounds:
  assumes "0 < p"
  shows "(2::rat) powi (bitlen p - 1) \<le> of_int p" and "of_int p < (2::rat) powi (bitlen p)"
proof -
  from assms have b: "1 \<le> bitlen p"
    by (simp add: bitlen_alt_def)
  from bitlen_bounds [OF assms]
  have l: "(2::int) ^ nat (bitlen p - 1) \<le> p" and u: "p < 2 ^ nat (bitlen p)" by simp_all
  from l have "(of_int ((2::int) ^ nat (bitlen p - 1)) :: rat) \<le> of_int p"
    by (simp only: of_int_le_iff)
  with b show "(2::rat) powi (bitlen p - 1) \<le> of_int p"
    by (simp add: power_int_def)
  from u have "(of_int p :: rat) < of_int ((2::int) ^ nat (bitlen p))"
    by (simp only: of_int_less_iff)
  with b show "of_int p < (2::rat) powi (bitlen p)"
    by (simp add: power_int_def)
qed

lemma binade_bounds:
  assumes "0 < x"
  shows "2 powi (binade x) \<le> x" and "x < 2 powi (binade x + 1)"
proof -
  obtain p q where pq: "quotient_of x = (p, q)" by (cases "quotient_of x")
  then have q: "0 < q" and x: "x = of_int p / of_int q"
    by (simp_all add: quotient_of_denom_pos quotient_of_div)
  with assms have p: "0 < p"
    by (simp add: zero_less_divide_iff)
  let ?d = "bitlen p - bitlen q"
  have two: "(2::rat) powi (?d + 1) = 2 powi (bitlen p) / 2 powi (bitlen q - 1)"
    "(2::rat) powi (?d - 1) = 2 powi (bitlen p - 1) / 2 powi (bitlen q)"
    by (simp_all add: power_int_diff [symmetric] algebra_simps)
  have up: "x < 2 powi (?d + 1)"
  proof -
    have "of_int p / of_int q < (2::rat) powi (bitlen p) / of_int q"
      using bitlen_powi_bounds(2) [OF p] q by (simp add: divide_strict_right_mono)
    also have "\<dots> \<le> 2 powi (bitlen p) / 2 powi (bitlen q - 1)"
      using bitlen_powi_bounds(1) [OF q] by (simp add: frac_le)
    finally show ?thesis by (simp add: x two)
  qed
  have low: "2 powi (?d - 1) \<le> x"
  proof -
    have "(2::rat) powi (bitlen p - 1) / 2 powi (bitlen q) \<le> of_int p / 2 powi (bitlen q)"
      using bitlen_powi_bounds(1) [OF p] by (simp add: divide_right_mono)
    also have "\<dots> \<le> of_int p / of_int q"
      using bitlen_powi_bounds(2) [OF q] p q by (simp add: frac_le)
    finally show ?thesis by (simp add: x two)
  qed
  show "2 powi (binade x) \<le> x"
  proof (cases "of_int q * 2 powi ?d \<le> (of_int p :: rat)")
    case True
    then have "binade x = ?d" by (simp add: binade_def pq Let_def)
    moreover from True q have "2 powi ?d \<le> x"
      by (simp add: x pos_le_divide_eq mult.commute)
    ultimately show ?thesis by simp
  next
    case False
    then have "binade x = ?d - 1" by (simp add: binade_def pq Let_def)
    with low show ?thesis by simp
  qed
  show "x < 2 powi (binade x + 1)"
  proof (cases "of_int q * 2 powi ?d \<le> (of_int p :: rat)")
    case True
    then have "binade x = ?d" by (simp add: binade_def pq Let_def)
    with up show ?thesis by simp
  next
    case False
    then have "binade x = ?d - 1" by (simp add: binade_def pq Let_def)
    moreover from False q have "x < 2 powi ?d"
      by (simp add: x pos_divide_less_eq mult.commute not_le)
    ultimately show ?thesis by simp
  qed
qed

lemma roundTiesToEven_error: "\<bar>of_int (roundTiesToEven x) - x\<bar> \<le> 1 / 2"
proof -
  define f where "f = \<lfloor>x\<rfloor>"
  have fl: "of_int f \<le> x" "x < of_int f + 1"
    unfolding f_def by linarith+
  consider "x - of_int f < 1 / 2" | "1 / 2 < x - of_int f" | "x - of_int f = 1 / 2"
    by linarith
  then show ?thesis
  proof cases
    case 1
    then have "roundTiesToEven x = f"
      by (simp add: roundTiesToEven_def Let_def f_def)
    with 1 fl show ?thesis by simp
  next
    case 2
    then have "roundTiesToEven x = f + 1"
      by (simp add: roundTiesToEven_def Let_def f_def)
    with 2 fl show ?thesis by simp
  next
    case 3
    then have "roundTiesToEven x = f \<or> roundTiesToEven x = f + 1"
      by (simp add: roundTiesToEven_def Let_def f_def)
    with 3 fl show ?thesis by auto
  qed
qed

lemma binary64_error:
  "\<bar>binary64 x - x\<bar> \<le> 2 powi (max (binade \<bar>x\<bar>) (- 1022) - 53)"
proof (cases "x = 0")
  case True
  then show ?thesis by (simp add: binary64_def)
next
  case False
  define u :: rat where "u = 2 powi (max (binade \<bar>x\<bar>) (- 1022) - 52)"
  define m where "m = roundTiesToEven (x / u)"
  have u: "0 < u" by (simp add: u_def)
  have b: "binary64 x = of_int m * u"
    using False by (simp add: binary64_def Let_def u_def m_def)
  have "of_int m * u - x = (of_int m - x / u) * u"
    using u by (simp add: left_diff_distrib)
  then have "\<bar>of_int m * u - x\<bar> = \<bar>of_int m - x / u\<bar> * \<bar>u\<bar>"
    by (simp only: abs_mult)
  with u have "\<bar>binary64 x - x\<bar> = \<bar>of_int m - x / u\<bar> * u"
    by (simp add: b)
  also have "\<dots> \<le> 1 / 2 * u"
    using roundTiesToEven_error [of "x / u"] u unfolding m_def by (intro mult_right_mono) simp_all
  also have "\<dots> = 2 powi (max (binade \<bar>x\<bar>) (- 1022) - 53)"
    by (simp add: u_def power_int_diff)
  finally show ?thesis .
qed

text \<open>
  The error of the two roundings in \<^verbatim>\<open>(score / length) * 100\<close>: at most \<open>2^-53\<close> on
  the quotient, which lies in \<open>[0, 1]\<close>, and \<open>2^-47\<close> on the product, below 128.
\<close>

lemma binary64_error_below:
  assumes "\<bar>x\<bar> < 2 powi k" and "- 1021 \<le> k"
  shows "\<bar>binary64 x - x\<bar> \<le> 2 powi (k - 54)"
proof (cases "x = 0")
  case True
  then show ?thesis by (simp add: binary64_def)
next
  case False
  then have pos: "0 < \<bar>x\<bar>" by simp
  have "binade \<bar>x\<bar> < k"
  proof (rule ccontr)
    assume "\<not> binade \<bar>x\<bar> < k"
    then have "(2::rat) powi k \<le> 2 powi (binade \<bar>x\<bar>)"
      by (intro power_int_increasing) simp_all
    with binade_bounds(1) [OF pos] assms(1) show False by simp
  qed
  with assms(2) have "max (binade \<bar>x\<bar>) (- 1022) - 53 \<le> k - 54" by simp
  then have "(2::rat) powi (max (binade \<bar>x\<bar>) (- 1022) - 53) \<le> 2 powi (k - 54)"
    by (intro power_int_increasing) simp_all
  with binary64_error [of x] show ?thesis by simp
qed

lemma pow_consts:
  "(2::rat) powi (1 - 54) = 1 / 9007199254740992"
  "(2::rat) powi (7 - 54) = 1 / 140737488355328"
  "(2::rat) powi 1 = 2" "(2::rat) powi 7 = 128"
  by (simp_all add: power_int_minus_divide)

lemma percent_error:
  assumes "0 \<le> r" and "r \<le> 1"
  shows "\<bar>js_times (binary64 r) 100 - 100 * r\<bar> \<le> 41 / 2251799813685248"
proof -
  define y where "y = binary64 r"
  from assms have "\<bar>r\<bar> < 2 powi 1" by simp
  from binary64_error_below [OF this] have e1: "\<bar>y - r\<bar> \<le> 1 / 9007199254740992"
    by (simp add: pow_consts y_def)
  with assms have "\<bar>y * 100\<bar> < 2 powi 7" by (simp add: abs_if split: if_splits)
  from binary64_error_below [OF this]
  have e2: "\<bar>binary64 (y * 100) - y * 100\<bar> \<le> 1 / 140737488355328"
    by (simp add: pow_consts)
  from e1 e2 show ?thesis
    unfolding js_times_def y_def [symmetric] by (simp add: abs_if split: if_splits)
qed

text \<open>
  Unless \<open>100 * s / n\<close> lies exactly halfway between two integers, the double
  computation rounds to the same integer as the exact one.
\<close>

lemma accuracy_no_tie:
  fixes s n :: int
  assumes "0 \<le> s" and "s \<le> n" and "0 < n" and "n < 2 ^ 44"
    and tie: "(200 * s + n) mod (2 * n) \<noteq> 0"
  shows "Math_round (js_times (binary64 (of_int s / of_int n)) 100) =
         Math_round (100 * of_int s / of_int n)"
proof -
  define r :: rat where "r = of_int s / of_int n"
  define y where "y = js_times (binary64 r) 100"
  define k where "k = (200 * s + n) div (2 * n)"
  define m where "m = (200 * s + n) mod (2 * n)"
  define d :: rat where "d = 1 / (2 * of_int n)"
  define t :: rat where "t = of_int m * d"
  have n: "(0::rat) < of_int n" using assms(3) by simp
  have r: "0 \<le> r" "r \<le> 1"
    using assms(1,2,3) by (simp_all add: r_def)
  from assms(3) have "0 < 2 * n" by simp
  then have "0 \<le> m" and m2: "m < 2 * n"
    unfolding m_def by (rule pos_mod_sign, rule pos_mod_bound)
  with tie have m1: "1 \<le> m" and m3: "m \<le> 2 * n - 1"
    by (simp_all add: m_def)
  have "200 * s + n = k * (2 * n) + m"
    unfolding k_def m_def by (rule div_mult_mod_eq [symmetric])
  then have "(of_int (200 * s + n) :: rat) = of_int (k * (2 * n) + m)" by simp
  then have q: "100 * r + 1 / 2 = of_int k + t"
    using n by (simp add: r_def t_def d_def field_simps)
  have d: "0 < d" using n by (simp add: d_def)
  have small: "41 / 2251799813685248 < d"
  proof -
    from assms(4) have "(of_int n :: rat) < of_int (2 ^ 44)" by (simp only: of_int_less_iff)
    then have "2 * (of_int n :: rat) < 35184372088832" by simp
    with n have "(1::rat) / 35184372088832 < 1 / (2 * of_int n)"
      by (simp add: divide_strict_left_mono)
    then show ?thesis by (simp add: d_def)
  qed
  have lo: "d \<le> t"
  proof -
    from m1 have "(1::rat) \<le> of_int m" by simp
    with d have "1 * d \<le> of_int m * d" by (intro mult_right_mono) simp_all
    then show ?thesis by (simp add: t_def)
  qed
  have hi: "t \<le> 1 - d"
  proof -
    from m3 have "(of_int m :: rat) \<le> of_int (2 * n - 1)" by (simp only: of_int_le_iff)
    with d have "of_int m * d \<le> of_int (2 * n - 1) * d" by (intro mult_right_mono) simp_all
    also have "\<dots> = 1 - d" using n by (simp add: d_def field_simps)
    finally show ?thesis by (simp add: t_def)
  qed
  from percent_error [OF r] have err: "\<bar>y - 100 * r\<bar> \<le> 41 / 2251799813685248"
    by (simp add: y_def)
  have "\<lfloor>100 * r + 1 / 2\<rfloor> = k"
  proof (rule floor_unique)
    from q lo d show "of_int k \<le> 100 * r + 1 / 2" by linarith
    from q hi d show "100 * r + 1 / 2 < of_int k + 1" by linarith
  qed
  moreover have "\<lfloor>y + 1 / 2\<rfloor> = k"
  proof (rule floor_unique)
    from err small lo q show "of_int k \<le> y + 1 / 2" by linarith
    from err small hi q show "y + 1 / 2 < of_int k + 1" by linarith
  qed
  ultimately show ?thesis
    by (simp add: Math_round_def y_def r_def)
qed

lemma accuracyPercent_eq:
  "accuracyPercent q =
     (if words q = [] then None
      else Some (Math_round (js_times (binary64 (of_int (score q) / of_int (int (length (words q))))) 100)))"
  by (simp add: accuracyPercent_def js_divide_def)

lemma accuracyPercent_no_tie:
  assumes "words q \<noteq> []" and "0 \<le> score q" and "score q \<le> int (length (words q))"
    and "int (length (words q)) < 2 ^ 44"
    and "(200 * score q + int (length (words q))) mod (2 * int (length (words q))) \<noteq> 0"
  shows "accuracyPercent q = Some (spec_accuracyPercent q)"
proof -
  from assms(1) have "0 < int (length (words q))" by simp
  from accuracy_no_tie [OF assms(2,3) this assms(4,5)] assms(1) show ?thesis
    by (simp add: accuracyPercent_eq spec_accuracyPercent_def)
qed

text \<open>
  \<open>23 / 40\<close> rounds to the double \<open>2589569785738035 / 2^52\<close>, below \<open>0.575\<close>; its
  product with 100 rounds to \<open>8092405580431359 / 2^47\<close>, below \<open>57.5\<close>.
\<close>

lemma double_23_40:
  "binary64 (23 / 40) = 2589569785738035 / 4503599627370496"
  "js_times (2589569785738035 / 4503599627370496) 100 = 8092405580431359 / 140737488355328"
  "Math_round (js_times (binary64 (23 / 40)) 100) = 57"
  by code_simp+

lemma exact_23_40: "Math_round (100 * 23 / 40) = 58"
  by code_simp

lemma session23of40_fields:
  "score session23of40 = 23" "words session23of40 = replicate 40 appleWord"
  "totalAnswered session23of40 = 40"
  by (simp_all add: session23of40_def advanceAll_score advanceAll_words advanceAll_totalAnswered
      sessionStart_fields)

lemma session23of40_reachable:
  "reachable (replicate 40 appleWord) session23of40 \<and> session_invariant session23of40"
  unfolding session23of40_def by (rule advanceAll_reachable) simp

lemma session23of40_finished: "isFinished session23of40"
  using session23of40_reachable
  by (simp add: session_invariant_def session23of40_fields split: if_splits)

text \<open>On the five words that \<^verbatim>\<open>startGame\<close> asks for, the page shows \<open>20 * score\<close>.\<close>

lemma accuracy_five_words:
  assumes "length (words q) = 5" and "score q \<in> {0, 1, 2, 3, 4, 5}"
  shows "accuracyPercent q = Some (20 * score q)"
    and "spec_accuracyPercent q = 20 * score q"
proof -
  have "Math_round (js_times (binary64 (of_int s / 5)) 100) = 20 * s
        \<and> Math_round (100 * of_int s / 5) = 20 * s"
    if "s \<in> {0, 1, 2, 3, 4, 5}" for s :: int
    using that by (elim insertE emptyE) (simp_all, code_simp+)
  from this [OF assms(2)] assms(1)
  show "accuracyPercent q = Some (20 * score q)" and "spec_accuracyPercent q = 20 * score q"
    by (auto simp: accuracyPercent_eq spec_accuracyPercent_def)
qed

text \<open>
  C7. The result page of a finished session shows
  \<open>round(100 * score / length(words))\<close>; 3 correct of 5 gives 60, which the code
  does show. The code evaluates
  \<^verbatim>\<open>Math.round((score / length) * 100)\<close> in doubles: for the finished session with 23
  correct answers on 40 words the quotient rounds below \<open>0.575\<close>, the product below
  \<open>57.5\<close>, and the page shows 57 where \<open>round(57.5)\<close> is 58.
\<close>

theorem C7_accuracy_23_of_40:
  "reachable (replicate 40 appleWord) session23of40
   \<and> isFinished session23of40
   \<and> score session23of40 = 23
   \<and> length (words session23of40) = 40
   \<and> accuracyPercent session23of40 = Some 57
   \<and> spec_accuracyPercent session23of40 = 58
   \<and> accuracyPercent session3of5 = Some 60"
proof -
  have "score session3of5 = 3" "length (words session3of5) = 5"
    by (simp_all add: session3of5_def advanceAll_score advanceAll_words sessionStart_fields
        del: advanceAll.simps)
  with accuracy_five_words(1) [of session3of5] have "accuracyPercent session3of5 = Some 60"
    by simp
  with session23of40_reachable session23of40_finished double_23_40(3) exact_23_40
  show ?thesis
    by (simp add: accuracyPercent_eq spec_accuracyPercent_def session23of40_fields)
qed

end
